theory Spec2Isabelle
  imports Complex_Main "HOL-Library.Log_Nat"
begin

section \<open>JavaScript values and strings\<close>

text \<open>
  Strings are lists of code units below 256.  \<open>String.prototype.trim\<close> removes the
  white space of that range from both ends: tab, line feed, vertical tab, form feed,
  carriage return, space and the no-break space.
\<close>

definition isWhitespace :: "char \<Rightarrow> bool" where
  "isWhitespace c =
     (c \<in> set [CHR 0x09, CHR 0x0A, CHR 0x0B, CHR 0x0C, CHR 0x0D, CHR 0x20, CHR 0xA0])"

definition trim :: "string \<Rightarrow> string" where
  "trim s = rev (dropWhile isWhitespace (rev (dropWhile isWhitespace s)))"

text \<open>
  A field of a reply parsed by \<open>JSON.parse\<close>, of a request body or of a plan object.
  \<open>JNull\<close> stands for \<open>null\<close> and for an absent field (\<open>undefined\<close>): the
  code treats the two alike wherever it reads such a field.  JSON arrays, objects and
  fractional numbers are not modelled.
\<close>

datatype jv = JNull | JBool bool | JNum int | JStr string

fun truthy :: "jv \<Rightarrow> bool" where
  "truthy JNull = False"
| "truthy (JBool b) = b"
| "truthy (JNum n) = (n \<noteq> 0)"
| "truthy (JStr s) = (s \<noteq> [])"

definition digitChar :: "nat \<Rightarrow> char" where
  "digitChar d = char_of (48 + d)"

fun showNat :: "nat \<Rightarrow> string" where
  "showNat n = (if n < 10 then [digitChar n] else showNat (n div 10) @ [digitChar (n mod 10)])"

definition showInt :: "int \<Rightarrow> string" where
  "showInt i = (if i < 0 then CHR ''-'' # showNat (nat (- i)) else showNat (nat i))"

text \<open>\<open>String(v)\<close>.\<close>

fun toStr :: "jv \<Rightarrow> string" where
  "toStr JNull = ''null''"
| "toStr (JBool b) = (if b then ''true'' else ''false'')"
| "toStr (JNum n) = showInt n"
| "toStr (JStr s) = s"

text \<open>\<open>a || b\<close> on values.\<close>

definition orElse :: "jv \<Rightarrow> jv \<Rightarrow> jv" where
  "orElse a b = (if truthy a then a else b)"

text \<open>\<open>norm(s) = String(s || "").trim()\<close> and \<open>stripEmpty\<close> of \<open>routes/chat.js\<close>.\<close>

definition norm_str :: "jv \<Rightarrow> string" where
  "norm_str s = trim (toStr (orElse s (JStr [])))"

definition stripEmpty :: "jv list \<Rightarrow> string list" where
  "stripEmpty arr = filter (\<lambda>s. s \<noteq> []) (map norm_str arr)"

section \<open>Numbers\<close>

text \<open>
  A JavaScript number is an IEEE-754 binary64 value.  A finite double is modelled by
  the rational it denotes; an operation computes the exact result and rounds it to the
  nearest double, ties to even, at 53 bits of precision with gradual underflow.
  Overflow to \<open>Infinity\<close>, \<open>NaN\<close> and the sign of zero are not modelled.
\<close>

definition pow2 :: "int \<Rightarrow> rat" where
  "pow2 e = (if 0 \<le> e then 2 ^ nat e else 1 / 2 ^ nat (- e))"

text \<open>For \<open>x > 0\<close>, the \<open>e\<close> with \<open>2 ^ e \<le> x < 2 ^ (e + 1)\<close>.\<close>

definition floorlog2 :: "rat \<Rightarrow> int" where
  "floorlog2 x =
     (let (p, q) = quotient_of x; k = bitlen p - bitlen q
      in if pow2 k \<le> x then k else k - 1)"

definition roundEven :: "rat \<Rightarrow> int" where
  "roundEven q =
     (let f = \<lfloor>q\<rfloor>; r = q - of_int f
      in if r < 1 / 2 then f else if 1 / 2 < r then f + 1
         else if even f then f else f + 1)"

definition rne :: "rat \<Rightarrow> rat" where
  "rne x =
     (if x = 0 then 0
      else let e = max (floorlog2 \<bar>x\<bar> - 52) (- 1074)
           in of_int (roundEven (x / pow2 e)) * pow2 e)"

definition fadd :: "rat \<Rightarrow> rat \<Rightarrow> rat" where
  "fadd a b = rne (a + b)"

definition fmul :: "rat \<Rightarrow> rat \<Rightarrow> rat" where
  "fmul a b = rne (a * b)"

definition fdiv :: "rat \<Rightarrow> rat \<Rightarrow> rat" where
  "fdiv a b = rne (a / b)"

text \<open>The integer square root, one bit at a time from bit \<open>k - 1\<close> down.\<close>

fun isqrt_bits :: "nat \<Rightarrow> int \<Rightarrow> int \<Rightarrow> int" where
  "isqrt_bits 0 n r = r"
| "isqrt_bits (Suc k) n r =
     (let c = r + 2 ^ k in if c * c \<le> n then isqrt_bits k n c else isqrt_bits k n r)"

definition isqrt :: "int \<Rightarrow> int" where
  "isqrt n = isqrt_bits (nat (bitlen n)) n 0"

text \<open>
  \<open>Math.sqrt\<close>, correctly rounded: the argument is scaled by a power of four into
  \<open>[2 ^ 104, 2 ^ 106)\<close>, so that the integer part of its root has 53 bits, and the root
  is compared with the midpoint of the two neighbouring doubles.  The argument is
  never negative where the code calls it (a sum of squares).
\<close>

definition fsqrt :: "rat \<Rightarrow> rat" where
  "fsqrt x =
     (if x \<le> 0 then 0
      else let e = floorlog2 x div 2 - 52;
               t = x / pow2 (2 * e);
               m = isqrt \<lfloor>t\<rfloor>;
               mid = (of_int m + 1 / 2) * (of_int m + 1 / 2)
           in of_int (if t < mid then m else if mid < t then m + 1
                      else if even m then m else m + 1) * pow2 e)"

text \<open>
  The arithmetic a numeric function is computed with: the code's doubles, or exact
  real arithmetic, against which the rounding of the doubles can be told apart.
\<close>

record 'n arith =
  add :: "'n \<Rightarrow> 'n \<Rightarrow> 'n"
  mul :: "'n \<Rightarrow> 'n \<Rightarrow> 'n"
  quot :: "'n \<Rightarrow> 'n \<Rightarrow> 'n"
  root :: "'n \<Rightarrow> 'n"

definition binary64 :: "rat arith" where
  "binary64 = \<lparr>add = fadd, mul = fmul, quot = fdiv, root = fsqrt\<rparr>"


section \<open>The area sum of \<open>runQuery\<close> (\<open>routes/chat.js\<close>)\<close>

text \<open>
  What \<open>json_extract(props_flat, ?)\<close> hands back for one row: SQL \<open>NULL\<close>, a number
  or a text.
\<close>

datatype area_raw = ANull | ANum rat | AStr string

definition isDigit :: "char \<Rightarrow> bool" where
  "isDigit c = (c \<in> set ''0123456789'')"

text \<open>
  The regular expression \<open>/[-+]?\d+(?:[.,]\d+)?/\<close>.  \<open>matchNumber\<close> is the part after
  the sign, anchored at the head of the string; \<open>matchAt\<close> adds the optional sign, and
  falls back to no sign as the backtracking matcher does; \<open>firstMatch\<close> is
  \<open>String.prototype.match\<close>, which tries each start position from the left and
  returns the text matched (\<open>match[0]\<close>).
\<close>

definition matchNumber :: "string \<Rightarrow> string option" where
  "matchNumber s =
     (let ds = takeWhile isDigit s; rest = dropWhile isDigit s
      in if ds = [] then None
         else case rest of
                [] \<Rightarrow> Some ds
              | c # r \<Rightarrow>
                  if (c = CHR ''.'' \<or> c = CHR '','') \<and> takeWhile isDigit r \<noteq> []
                  then Some (ds @ c # takeWhile isDigit r)
                  else Some ds)"

definition matchAt :: "string \<Rightarrow> string option" where
  "matchAt s =
     (case s of
        [] \<Rightarrow> None
      | c # r \<Rightarrow>
          if c = CHR ''-'' \<or> c = CHR ''+''
          then (case matchNumber r of Some m \<Rightarrow> Some (c # m) | None \<Rightarrow> matchNumber s)
          else matchNumber s)"

fun firstMatch :: "string \<Rightarrow> string option" where
  "firstMatch [] = None"
| "firstMatch (c # r) =
     (case matchAt (c # r) of Some m \<Rightarrow> Some m | None \<Rightarrow> firstMatch r)"

text \<open>\<open>s.replace(",", ".")\<close>: the first comma only.\<close>

fun replaceComma :: "string \<Rightarrow> string" where
  "replaceComma [] = []"
| "replaceComma (c # r) = (if c = CHR '','' then CHR ''.'' # r else c # replaceComma r)"

definition digitVal :: "char \<Rightarrow> nat" where
  "digitVal c = of_char c - 48"

definition digitsVal :: "string \<Rightarrow> nat" where
  "digitsVal ds = foldl (\<lambda>a c. 10 * a + digitVal c) 0 ds"

text \<open>
  \<open>parseFloat\<close> on the texts the regular expression can match: an optional sign,
  digits, and optionally a point followed by digits.  It reads the longest prefix that
  is a decimal literal and rounds its value to a double; \<open>None\<close> is \<open>NaN\<close> (no digit
  at the head).  Exponents and leading white space do not occur in a match.
\<close>

definition parseUnsigned :: "string \<Rightarrow> rat option" where
  "parseUnsigned s =
     (let ip = takeWhile isDigit s; rest = dropWhile isDigit s
      in if ip = [] then None
         else case rest of
                [] \<Rightarrow> Some (rne (of_nat (digitsVal ip)))
              | c # r \<Rightarrow>
                  if c = CHR ''.''
                  then let fp = takeWhile isDigit r
                       in Some (rne (of_nat (digitsVal ip)
                                     + of_nat (digitsVal fp) / 10 ^ length fp))
                  else Some (rne (of_nat (digitsVal ip))))"

definition parseFloat :: "string \<Rightarrow> rat option" where
  "parseFloat s =
     (case s of
        [] \<Rightarrow> None
      | c # r \<Rightarrow>
          if c = CHR ''-'' then map_option uminus (parseUnsigned r)
          else if c = CHR ''+'' then parseUnsigned r
          else parseUnsigned s)"

text \<open>
  One round of the loop body.  \<open>areaNum\<close> starts at 0 and stays 0 when the value is
  neither a number nor a text with a match; the row counts only if \<open>areaNum\<close> is
  truthy and not \<open>NaN\<close>.
\<close>

definition areaNum :: "area_raw \<Rightarrow> rat option" where
  "areaNum raw =
     (case raw of
        ANull \<Rightarrow> Some 0
      | ANum x \<Rightarrow> Some x
      | AStr s \<Rightarrow> (case firstMatch s of
                     None \<Rightarrow> Some 0
                   | Some m \<Rightarrow> parseFloat (replaceComma m)))"

definition falsyRaw :: "area_raw \<Rightarrow> bool" where
  "falsyRaw raw = (case raw of ANull \<Rightarrow> True | ANum x \<Rightarrow> x = 0 | AStr s \<Rightarrow> s = [])"

definition sumAreaStep :: "rat \<times> nat \<Rightarrow> area_raw \<Rightarrow> rat \<times> nat" where
  "sumAreaStep acc raw =
     (if falsyRaw raw then acc
      else case areaNum raw of
             None \<Rightarrow> acc
           | Some a \<Rightarrow> if a \<noteq> 0 then (fadd (fst acc) a, snd acc + 1) else acc)"

text \<open>The loop: \<open>total_area\<close> and \<open>n\<close> start at 0.\<close>

definition sumAreaLoop :: "area_raw list \<Rightarrow> rat \<times> nat" where
  "sumAreaLoop rows = foldl sumAreaStep (0, 0) rows"

section \<open>The element table (\<open>services/sqlite.js\<close>)\<close>

datatype error = ServiceError | SyntaxError | SqlError | MissingField string

text \<open>
  The text of the \<open>embedding\<close> column, by what \<open>JSON.parse\<close> makes of it: a vector
  of numbers, or a \<open>SyntaxError\<close>.
\<close>

datatype stored_vec = Parsed "rat list" | Unparsable

type_synonym props = "(string \<times> area_raw) list"

text \<open>
  A row of \<open>elements\<close>, with the columns the chat route and the ingest read or filter
  on.  \<open>rid\<close> is the \<open>id\<close> column, the autoincremented primary key; a text column
  holds a text or \<open>NULL\<close>.
\<close>

record row =
  rid :: int
  urn :: string
  guid :: string
  dbId :: int
  name :: "string option"
  component_type :: "string option"
  type_name :: "string option"
  family_name :: "string option"
  level_number :: "string option"
  room_name :: "string option"
  room_type :: "string option"
  system_type :: "string option"
  system_name :: "string option"
  manufacturer :: "string option"
  model_name :: "string option"
  omniclass_title :: "string option"
  omniclass_number :: "string option"
  props_flat :: "props option"
  embedding :: "stored_vec option"

text \<open>The table, and the next value of its autoincrement counter.\<close>

record store =
  elements :: "row list"
  nextId :: int

section \<open>Semantic retrieval (\<open>services/sqlite.js\<close>)\<close>

text \<open>
  \<open>cosineSimilarity(a, b)\<close>: the loop runs over the indices of \<open>a\<close>, after the lengths
  were found equal.  Both arguments are arrays where the code calls it.
\<close>

fun cosineLoop :: "'n arith \<Rightarrow> 'n list \<Rightarrow> 'n list \<Rightarrow> 'n \<times> 'n \<times> 'n \<Rightarrow> 'n \<times> 'n \<times> 'n" where
  "cosineLoop A (x # xs) (y # ys) (dot, magA, magB) =
     cosineLoop A xs ys
       (add A dot (mul A x y), add A magA (mul A x x), add A magB (mul A y y))"
| "cosineLoop A _ _ acc = acc"

definition cosineSimilarity :: "'n::zero arith \<Rightarrow> 'n list \<Rightarrow> 'n list \<Rightarrow> 'n" where
  "cosineSimilarity A a b =
     (if length a \<noteq> length b then 0
      else case cosineLoop A a b (0, 0, 0) of
             (dot, magA, magB) \<Rightarrow>
               let magnitude = mul A (root A magA) (root A magB)
               in if magnitude = 0 then 0 else quot A dot magnitude)"

text \<open>\<open>SELECT id, embedding FROM elements WHERE urn = ? AND embedding IS NOT NULL\<close>.\<close>

definition embeddingRows :: "store \<Rightarrow> string \<Rightarrow> row list" where
  "embeddingRows db u = filter (\<lambda>r. urn r = u \<and> embedding r \<noteq> None) (elements db)"

text \<open>The \<open>map\<close> over the rows: the first text that does not parse throws.\<close>

fun scoreRows :: "rat list \<Rightarrow> row list \<Rightarrow> error + (int \<times> rat) list" where
  "scoreRows q [] = Inr []"
| "scoreRows q (r # rs) =
     (case embedding r of
        Some (Parsed v) \<Rightarrow>
          (case scoreRows q rs of
             Inl e \<Rightarrow> Inl e
           | Inr ss \<Rightarrow> Inr ((rid r, cosineSimilarity binary64 q v) # ss))
      | _ \<Rightarrow> Inl SyntaxError)"

text \<open>
  \<open>scores.sort((a, b) => b.score - a.score)\<close>: a stable sort, higher score first.
  The same sort, on the count, stands for \<open>ORDER BY count DESC\<close>.
\<close>

fun insertDesc :: "('a \<Rightarrow> 'k::linorder) \<Rightarrow> 'a \<Rightarrow> 'a list \<Rightarrow> 'a list" where
  "insertDesc key x [] = [x]"
| "insertDesc key x (y # ys) =
     (if key x < key y then y # insertDesc key x ys else x # y # ys)"

definition sortDesc :: "('a \<Rightarrow> 'k::linorder) \<Rightarrow> 'a list \<Rightarrow> 'a list" where
  "sortDesc key xs = foldr (insertDesc key) xs []"

text \<open>\<open>xs.slice(0, k)\<close>: a negative \<open>k\<close> counts from the end.\<close>

definition slice0 :: "int \<Rightarrow> 'a list \<Rightarrow> 'a list" where
  "slice0 k xs = (if 0 \<le> k then take (nat k) xs else take (nat (int (length xs) + k)) xs)"

definition topScores :: "store \<Rightarrow> string \<Rightarrow> rat list \<Rightarrow> int \<Rightarrow> error + (int \<times> rat) list" where
  "topScores db u q k =
     (case scoreRows q (embeddingRows db u) of
        Inl e \<Rightarrow> Inl e
      | Inr scores \<Rightarrow> Inr (slice0 k (sortDesc snd scores)))"

definition semanticSearch :: "store \<Rightarrow> string \<Rightarrow> rat list \<Rightarrow> int \<Rightarrow> error + int list" where
  "semanticSearch db u q k =
     (if embeddingRows db u = [] then Inr []
      else case topScores db u q k of
             Inl e \<Rightarrow> Inl e
           | Inr best \<Rightarrow> Inr (map fst best))"

section \<open>The catalog (\<open>getMeta\<close> of \<open>routes/chat.js\<close>)\<close>

text \<open>
  The text columns that can be named in a query.  Text that is not one of these names
  is answered with an SQL error: the model interprets interpolated text as a column
  name and as nothing else.
\<close>

definition column :: "string \<Rightarrow> (row \<Rightarrow> string option) option" where
  "column c = map_of
     [(''urn'', \<lambda>r. Some (urn r)), (''guid'', \<lambda>r. Some (guid r)), (''name'', name),
      (''component_type'', component_type), (''type_name'', type_name),
      (''family_name'', family_name), (''level_number'', level_number),
      (''room_name'', room_name), (''room_type'', room_type),
      (''system_type'', system_type), (''system_name'', system_name),
      (''manufacturer'', manufacturer), (''model_name'', model_name),
      (''omniclass_title'', omniclass_title), (''omniclass_number'', omniclass_number)] c"

text \<open>\<open>DISTINCT\<close>, in the order of first occurrence (SQL leaves the order open).\<close>

definition distinctFirst :: "'a list \<Rightarrow> 'a list" where
  "distinctFirst xs = rev (remdups (rev xs))"

text \<open>\<open>LIMIT n\<close>: a negative \<open>n\<close> is no limit.\<close>

definition sqlLimit :: "int \<Rightarrow> 'a list \<Rightarrow> 'a list" where
  "sqlLimit n xs = (if n < 0 then xs else take (nat n) xs)"

definition rowsOf :: "store \<Rightarrow> string \<Rightarrow> row list" where
  "rowsOf db u = filter (\<lambda>r. urn r = u) (elements db)"

text \<open>
  \<open>SELECT DISTINCT c FROM elements WHERE urn = ? AND c IS NOT NULL AND c != ''\<close>.
\<close>

definition selectDistinct :: "(row \<Rightarrow> string option) \<Rightarrow> store \<Rightarrow> string \<Rightarrow> string list" where
  "selectDistinct c db u =
     distinctFirst (filter (\<lambda>s. s \<noteq> []) (List.map_filter c (rowsOf db u)))"

definition sampleKeys :: "string list" where
  "sampleKeys = [''level_number'', ''room_name'', ''room_type'', ''system_name'',
                 ''system_type'', ''manufacturer'', ''model_name'', ''omniclass_title'',
                 ''type_name'', ''family_name'']"

definition toLowerAscii :: "char \<Rightarrow> char" where
  "toLowerAscii c =
     (if 65 \<le> (of_char c :: nat) \<and> (of_char c :: nat) \<le> 90
      then char_of ((of_char c :: nat) + 32) else c)"

fun isInfix :: "string \<Rightarrow> string \<Rightarrow> bool" where
  "isInfix p [] = (p = [])"
| "isInfix p (c # s) = (take (length p) (c # s) = p \<or> isInfix p s)"

text \<open>\<open>/area/i.test(k)\<close>.\<close>

definition isAreaKey :: "string \<Rightarrow> bool" where
  "isAreaKey k = isInfix ''area'' (map toLowerAscii k)"

record meta =
  categoryField :: string
  categories :: "string list"
  paramSamples :: "(string \<times> string list) list"
  areaKeys :: "string list"

definition getMeta :: "store \<Rightarrow> string \<Rightarrow> meta" where
  "getMeta db u =
     \<lparr>categoryField = ''component_type'',
      categories = stripEmpty (map JStr (selectDistinct component_type db u)),
      paramSamples =
        map (\<lambda>k. (k, case column k of
                        None \<Rightarrow> []
                      | Some c \<Rightarrow> stripEmpty (map JStr (take 15 (selectDistinct c db u)))))
            sampleKeys,
      areaKeys =
        take 200 (distinctFirst (concat (map
          (\<lambda>r. case props_flat r of None \<Rightarrow> [] | Some pf \<Rightarrow> filter isAreaKey (map fst pf))
          (take 50 (rowsOf db u)))))\<rparr>"

section \<open>The query engine (\<open>runQuery\<close> of \<open>routes/chat.js\<close>)\<close>

text \<open>
  The merged plan of the route.  The two numeric fields are JSON integers or
  \<open>null\<close>; the others are read through truthiness, \<open>String\<close> and \<open>===\<close>, so they
  are kept as values.
\<close>

record plan =
  plan_urn :: string
  task :: jv
  category :: jv
  limit :: "int option"
  filterParam :: jv
  filterValue :: jv
  targetParam :: jv
  propsFlatKey :: jv
  useSemanticSearch :: jv
  semanticQuery :: jv
  topK :: "int option"
  plan_notes :: jv

text \<open>
  The collaborators the route calls: the embedding provider behind
  \<open>generateEmbedding\<close>, the row store's \<open>json_extract\<close> on a \<open>props_flat\<close> text, and
  the inference service, once per prompt.  Each inference call is given what its
  prompt is built from; \<open>Inl\<close> is a call that throws (after the retries of
  \<open>geminiJson\<close>, or a reply that is \<open>null\<close>).
\<close>

record hint_reply =
  hintCategory :: jv
  hintConfidence :: jv

record plan1 =
  intent1 :: jv
  task1 :: jv
  category1 :: jv
  limit1 :: "int option"
  notes1 :: jv

record plan2 =
  useSemanticSearch2 :: jv
  semanticQuery2 :: jv
  topK2 :: "int option"
  filterParam2 :: jv
  filterValue2 :: jv
  targetParam2 :: jv
  propsFlatKey2 :: jv
  limit2 :: "int option"

datatype clause = UrnEq string | IdIn "int list" | FieldEq string jv

record doc =
  doc_urn :: string
  doc_guid :: string
  doc_dbId :: int
  doc_name :: "string option"
  basic :: "string option \<times> string option \<times> string option"
  location :: "string option \<times> string option \<times> string option"
  system :: "string option \<times> string option"
  equipment :: "string option \<times> string option"
  omniclass :: "string option \<times> string option"

datatype result =
    Count nat
  | Distinct string "string list"
  | GroupCount string "(string \<times> nat) list"
  | SumArea string rat nat
  | ListDocs "doc list"

record env =
  embedClient :: "string \<Rightarrow> error + rat list"
  jsonExtract :: "props option \<Rightarrow> string \<Rightarrow> area_raw"
  hintLLM :: "string \<Rightarrow> string list \<Rightarrow> error + hint_reply"
  intentLLM :: "string \<Rightarrow> string list \<Rightarrow> jv \<Rightarrow> error + plan1"
  parameterLLM :: "string \<Rightarrow> plan1 \<Rightarrow> meta \<Rightarrow> error + plan2"
  valueLLM :: "string \<Rightarrow> string \<Rightarrow> string list \<Rightarrow> error + jv"
  generalLLM :: "string \<Rightarrow> error + string"
  answerLLM :: "string \<Rightarrow> meta \<Rightarrow> plan \<Rightarrow> result \<Rightarrow> error + string"

text \<open>\<open>generateEmbedding\<close> of \<open>services/embeddings.js\<close>.\<close>

definition generateEmbedding :: "env \<Rightarrow> jv \<Rightarrow> error + rat list option" where
  "generateEmbedding E text =
     (case text of
        JStr s \<Rightarrow>
          if s = [] \<or> trim s = [] then Inr None
          else (case embedClient E (trim s) of Inl e \<Rightarrow> Inl e | Inr v \<Rightarrow> Inr (Some v))
      | _ \<Rightarrow> Inr None)"

text \<open>\<open>n || d\<close> on a numeric field.\<close>

definition numOr :: "int option \<Rightarrow> int \<Rightarrow> int" where
  "numOr n d = (case n of None \<Rightarrow> d | Some k \<Rightarrow> if k = 0 then d else k)"

text \<open>
  The \<open>try\<close> block of \<open>runQuery\<close>: \<open>candidateIds\<close> stays \<open>null\<close> (\<open>None\<close>) unless the
  search is asked for, the query text embeds, and the search returns.
\<close>

definition candidateIds :: "env \<Rightarrow> store \<Rightarrow> plan \<Rightarrow> int list option" where
  "candidateIds E db p =
     (if truthy (useSemanticSearch p) \<and> truthy (semanticQuery p)
      then (case generateEmbedding E (semanticQuery p) of
              Inl e \<Rightarrow> None
            | Inr None \<Rightarrow> None
            | Inr (Some queryEmbed) \<Rightarrow>
                (case semanticSearch db (plan_urn p) queryEmbed (numOr (topK p) 100) of
                   Inl e \<Rightarrow> None
                 | Inr ids \<Rightarrow> Some ids))
      else None)"

text \<open>\<open>plan.category ? norm(plan.category) : null\<close>; an empty text is falsy later on.\<close>

definition normCategory :: "plan \<Rightarrow> string option" where
  "normCategory p = (if truthy (category p) then Some (norm_str (category p)) else None)"

definition hasFilter :: "plan \<Rightarrow> bool" where
  "hasFilter p =
     (truthy (filterParam p) \<and> filterValue p \<noteq> JNull \<and> trim (toStr (filterValue p)) \<noteq> [])"

text \<open>
  The \<open>WHERE\<close> clause, each conjunct with the parameter bound to it: \<open>urn = ?\<close>,
  \<open>id IN (...)\<close> and \<open><name> = ?\<close>.
\<close>

definition whereClauses :: "meta \<Rightarrow> plan \<Rightarrow> int list option \<Rightarrow> clause list" where
  "whereClauses m p cids =
     [UrnEq (plan_urn p)]
     @ (case cids of None \<Rightarrow> [] | Some ids \<Rightarrow> if ids \<noteq> [] then [IdIn ids] else [])
     @ (case normCategory p of
          None \<Rightarrow> []
        | Some c \<Rightarrow> if c \<noteq> [] then [FieldEq (categoryField m) (JStr c)] else [])
     @ (if hasFilter p then [FieldEq (toStr (filterParam p)) (filterValue p)] else [])"

text \<open>The row store on such a clause; a bound value is compared as text.\<close>

fun clauseOk :: "clause \<Rightarrow> bool" where
  "clauseOk (FieldEq f v) = (column f \<noteq> None)"
| "clauseOk _ = True"

fun holds :: "row \<Rightarrow> clause \<Rightarrow> bool" where
  "holds r (UrnEq u) = (urn r = u)"
| "holds r (IdIn ids) = (rid r \<in> set ids)"
| "holds r (FieldEq f v) = (case column f of None \<Rightarrow> False | Some c \<Rightarrow> c r = Some (toStr v))"

definition selectWhere :: "store \<Rightarrow> clause list \<Rightarrow> error + row list" where
  "selectWhere db cs =
     (if list_all clauseOk cs
      then Inr (filter (\<lambda>r. list_all (holds r) cs) (elements db))
      else Inl SqlError)"

definition toDoc :: "row \<Rightarrow> doc" where
  "toDoc r =
     \<lparr>doc_urn = urn r, doc_guid = guid r, doc_dbId = dbId r, doc_name = name r,
      basic = (component_type r, type_name r, family_name r),
      location = (level_number r, room_name r, room_type r),
      system = (system_type r, system_name r),
      equipment = (manufacturer r, model_name r),
      omniclass = (omniclass_title r, omniclass_number r)\<rparr>"

definition limitOf :: "plan \<Rightarrow> int" where
  "limitOf p = (case limit p of Some n \<Rightarrow> n | None \<Rightarrow> 20)"

text \<open>
  The five tasks, on the rows the clause selects.  A target column that is \<open>NULL\<close> is
  left out by \<open>IS NOT NULL\<close>; a missing target or key throws before any read.
\<close>

definition runTask :: "env \<Rightarrow> store \<Rightarrow> plan \<Rightarrow> clause list \<Rightarrow> error + result" where
  "runTask E db p cs =
     (if task p = JStr ''count'' then
        (case selectWhere db cs of Inl e \<Rightarrow> Inl e | Inr rs \<Rightarrow> Inr (Count (length rs)))
      else if task p = JStr ''distinct'' then
        (if \<not> truthy (targetParam p) then Inl (MissingField ''distinct requires targetParam'')
         else case (column (toStr (targetParam p)), selectWhere db cs) of
                (Some c, Inr rs) \<Rightarrow>
                  Inr (Distinct (toStr (targetParam p))
                        (filter (\<lambda>s. s \<noteq> [])
                           (map (\<lambda>s. norm_str (JStr s))
                              (sqlLimit (limitOf p) (distinctFirst (List.map_filter c rs))))))
              | _ \<Rightarrow> Inl SqlError)
      else if task p = JStr ''group_count'' then
        (if \<not> truthy (targetParam p) then Inl (MissingField ''group_count requires targetParam'')
         else case (column (toStr (targetParam p)), selectWhere db cs) of
                (Some c, Inr rs) \<Rightarrow>
                  (let vs = List.map_filter c rs
                   in Inr (GroupCount (toStr (targetParam p))
                        (sqlLimit (limitOf p)
                           (sortDesc snd
                              (map (\<lambda>v. (v, length (filter (\<lambda>w. w = v) vs))) (distinctFirst vs))))))
              | _ \<Rightarrow> Inl SqlError)
      else if task p = JStr ''sum_area'' then
        (if \<not> truthy (propsFlatKey p) then Inl (MissingField ''sum_area requires propsFlatKey'')
         else case selectWhere db cs of
                Inl e \<Rightarrow> Inl e
              | Inr rs \<Rightarrow>
                  (case sumAreaLoop
                          (map (\<lambda>r. jsonExtract E (props_flat r) (''$.'' @ toStr (propsFlatKey p))) rs) of
                     (total_area, n) \<Rightarrow> Inr (SumArea (toStr (propsFlatKey p)) total_area n)))
      else
        (case selectWhere db cs of
           Inl e \<Rightarrow> Inl e
         | Inr rs \<Rightarrow> Inr (ListDocs (map toDoc (sqlLimit (limitOf p) rs)))))"

definition runQuery :: "env \<Rightarrow> store \<Rightarrow> meta \<Rightarrow> plan \<Rightarrow> error + result" where
  "runQuery E db m p = runTask E db p (whereClauses m p (candidateIds E db p))"

section \<open>The chat route (\<open>router.post\<close> of \<open>routes/chat.js\<close>)\<close>

text \<open>
  \<open>detectHintCategory(question, availableCategories)\<close>: no keyword rule is left in
  it; the reply of the inference service is returned when it names a category with a
  confidence other than \<open>"low"\<close>, and a failing call gives \<open>null\<close>.
\<close>

definition detectHintCategory :: "env \<Rightarrow> string \<Rightarrow> string list \<Rightarrow> jv" where
  "detectHintCategory E question availableCategories =
     (if question = [] \<or> availableCategories = [] then JNull
      else case hintLLM E question availableCategories of
             Inl e \<Rightarrow> JNull
           | Inr r \<Rightarrow>
               if truthy (hintCategory r) \<and> hintConfidence r \<noteq> JStr ''low''
               then hintCategory r else JNull)"

text \<open>
  \<open>let category = plan1.category ? norm(plan1.category) : null\<close>, replaced by the hint
  when it is falsy and the hint is in the catalog (\<open>includes\<close> compares with \<open>===\<close>).
\<close>

definition chooseCategory :: "plan1 \<Rightarrow> jv \<Rightarrow> meta \<Rightarrow> jv" where
  "chooseCategory p1 hint m =
     (let c = (if truthy (category1 p1) then JStr (norm_str (category1 p1)) else JNull)
      in if \<not> truthy c \<and> truthy hint \<and> hint \<in> set (map JStr (categories m))
         then hint else c)"

definition mergePlan :: "string \<Rightarrow> plan1 \<Rightarrow> jv \<Rightarrow> plan2 \<Rightarrow> plan" where
  "mergePlan u p1 c p2 =
     \<lparr>plan_urn = u,
      task = orElse (task1 p1) (JStr ''count''),
      category = c,
      limit = Some (numOr (limit2 p2) (numOr (limit1 p1) 20)),
      filterParam = orElse (filterParam2 p2) JNull,
      filterValue = filterValue2 p2,
      targetParam = orElse (targetParam2 p2) JNull,
      propsFlatKey = orElse (propsFlatKey2 p2) JNull,
      useSemanticSearch = orElse (useSemanticSearch2 p2) (JBool False),
      semanticQuery = orElse (semanticQuery2 p2) JNull,
      topK = Some (numOr (topK2 p2) 100),
      plan_notes = orElse (notes1 p1) (JStr [])\<rparr>"

definition allowedParams :: "string list" where
  "allowedParams = [''level_number'', ''room_name'', ''room_type'', ''system_name'',
                    ''system_type'', ''manufacturer'', ''model_name'', ''type_name'',
                    ''family_name'', ''omniclass_title'']"

text \<open>\<open>allowedParams.has(v)\<close>: only a text can be a member.\<close>

definition allowedHas :: "jv \<Rightarrow> bool" where
  "allowedHas v = (v \<in> set (map JStr allowedParams))"

definition sanitize :: "plan \<Rightarrow> plan" where
  "sanitize p =
     (let p' = (if truthy (filterParam p) \<and> \<not> allowedHas (filterParam p)
                then p\<lparr>filterParam := JNull\<rparr> else p)
      in if truthy (targetParam p') \<and> \<not> allowedHas (targetParam p')
         then p'\<lparr>targetParam := JNull\<rparr> else p')"

text \<open>
  \<open>SELECT DISTINCT f AS v FROM elements WHERE urn = ? AND f IS NOT NULL AND f != ''
  LIMIT 200\<close>, through \<open>stripEmpty\<close>.
\<close>

definition candidateValues :: "store \<Rightarrow> string \<Rightarrow> string \<Rightarrow> error + string list" where
  "candidateValues db u f =
     (case column f of
        None \<Rightarrow> Inl SqlError
      | Some c \<Rightarrow> Inr (stripEmpty (map JStr (take 200 (selectDistinct c db u)))))"

text \<open>\<open>proposed\<close>: the trimmed text of \<open>plan.filterValue\<close>, or the empty text.\<close>

definition proposedValue :: "plan \<Rightarrow> string" where
  "proposedValue p = (if filterValue p \<noteq> JNull then trim (toStr (filterValue p)) else [])"

text \<open>
  Step 2.5, the value prompt.  The result is the plan and whether the inference
  service was asked.  Anything thrown inside the \<open>try\<close> leaves the plan as it was.
\<close>

definition valueStep :: "env \<Rightarrow> store \<Rightarrow> string \<Rightarrow> plan \<Rightarrow> plan \<times> bool" where
  "valueStep E db question p =
     (if \<not> truthy (filterParam p) then (p, False)
      else case candidateValues db (plan_urn p) (toStr (filterParam p)) of
             Inl e \<Rightarrow> (p, False)
           | Inr candidates \<Rightarrow>
               if candidates = [] then (p, False)
               else let proposed = proposedValue p;
                        exactHit = (proposed \<noteq> [] \<and> proposed \<in> set (map trim candidates))
                    in if \<not> exactHit \<and> proposed \<noteq> []
                       then (case valueLLM E question (toStr (filterParam p)) candidates of
                               Inl e \<Rightarrow> (p, True)
                             | Inr v \<Rightarrow>
                                 if v \<noteq> JNull \<and> trim (toStr v) \<in> set (map trim candidates)
                                 then (p\<lparr>filterValue := v\<rparr>, True)
                                 else (p, True))
                       else (p, False))"

text \<open>The plan that reaches \<open>runQuery\<close>, from the two replies of the planner.\<close>

definition finalPlan :: "env \<Rightarrow> store \<Rightarrow> string \<Rightarrow> string \<Rightarrow> plan1 \<Rightarrow> jv \<Rightarrow> plan2 \<Rightarrow> plan" where
  "finalPlan E db u question p1 c p2 =
     fst (valueStep E db question (sanitize (mergePlan u p1 c p2)))"

datatype response =
    BadRequest string
  | GeneralAnswer string
  | BimAnswer string plan result

definition postChat :: "env \<Rightarrow> store \<Rightarrow> string \<Rightarrow> string \<Rightarrow> error + response" where
  "postChat E db u question =
     (if u = [] then Inr (BadRequest ''Missing urn'')
      else if question = [] then Inr (BadRequest ''Missing question'')
      else let m = getMeta db u;
               hint = detectHintCategory E question (categories m)
           in case intentLLM E question (categories m) hint of
                Inl e \<Rightarrow> Inl e
              | Inr p1 \<Rightarrow>
                  if intent1 p1 = JStr ''general''
                  then (case generalLLM E question of
                          Inl e \<Rightarrow> Inl e
                        | Inr a \<Rightarrow> Inr (GeneralAnswer a))
                  else let c = chooseCategory p1 hint m
                       in case parameterLLM E question (p1\<lparr>category1 := c\<rparr>) m of
                            Inl e \<Rightarrow> Inl e
                          | Inr p2 \<Rightarrow>
                              let p = finalPlan E db u question p1 c p2
                              in case runQuery E db m p of
                                   Inl e \<Rightarrow> Inl e
                                 | Inr res \<Rightarrow>
                                     (case answerLLM E question m p res of
                                        Inl e \<Rightarrow> Inl e
                                      | Inr a \<Rightarrow> Inr (BimAnswer a p res)))"

section \<open>Ingest (\<open>scripts/migrate-to-sqlite.js\<close>, \<open>services/snapshotIngest.js\<close>)\<close>

text \<open>\<open>DELETE FROM elements WHERE urn = ?\<close>.\<close>

definition deleteUrn :: "string \<Rightarrow> store \<Rightarrow> store" where
  "deleteUrn u db = db\<lparr>elements := filter (\<lambda>r. urn r \<noteq> u) (elements db)\<rparr>"

text \<open>One \<open>INSERT\<close>: the row gets the next \<open>id\<close>.\<close>

definition insertRow :: "store \<Rightarrow> row \<Rightarrow> store" where
  "insertRow db r =
     \<lparr>elements = elements db @ [r\<lparr>rid := nextId db\<rparr>], nextId = nextId db + 1\<rparr>"

definition insertMany :: "row list \<Rightarrow> store \<Rightarrow> store" where
  "insertMany rs db = foldl insertRow db rs"

text \<open>
  \<open>transformElement(elem, urn, guid)\<close> and \<open>transformSnapshotElement\<close>: the row carries
  the given \<open>urn\<close> and \<open>guid\<close>.  The other columns are what \<open>flattenProps\<close>,
  \<open>extractGroups\<close> and the keyword table of \<open>services/dmMapping.js\<close> derive from the
  element; they are the parameter \<open>cols\<close>, a function of the element alone.
\<close>

definition transformElement :: "('e \<Rightarrow> row) \<Rightarrow> 'e \<Rightarrow> string \<Rightarrow> string \<Rightarrow> row" where
  "transformElement cols elem u g = (cols elem)\<lparr>urn := u, guid := g\<rparr>"

text \<open>
  Step 5 of \<open>migrate\<close>: \<open>embeddings[i]\<close> is stored as JSON text, or \<open>null\<close> where it
  is missing.  \<open>embs\<close> is what \<open>generateEmbeddings\<close> returned, or all \<open>null\<close> after it
  threw.
\<close>

fun attachEmbeddings :: "rat list option list \<Rightarrow> row list \<Rightarrow> row list" where
  "attachEmbeddings embs [] = []"
| "attachEmbeddings [] (r # rs) = r\<lparr>embedding := None\<rparr> # attachEmbeddings [] rs"
| "attachEmbeddings (e # embs) (r # rs) =
     r\<lparr>embedding := map_option Parsed e\<rparr> # attachEmbeddings embs rs"

definition migrate ::
  "('e \<Rightarrow> row) \<Rightarrow> string \<Rightarrow> string \<Rightarrow> rat list option list \<Rightarrow> 'e list \<Rightarrow> store \<Rightarrow> store" where
  "migrate cols u g embs rawData db =
     insertMany (attachEmbeddings embs (map (\<lambda>e. transformElement cols e u g) rawData))
       (deleteUrn u db)"

definition initSnapshot :: "string \<Rightarrow> store \<Rightarrow> store" where
  "initSnapshot u db = deleteUrn u db"

definition ingestSnapshotChunk :: "('e \<Rightarrow> row) \<Rightarrow> string \<Rightarrow> string \<Rightarrow> 'e list \<Rightarrow> store \<Rightarrow> store" where
  "ingestSnapshotChunk cols u g es db =
     (if es = [] then db
      else insertMany (map (\<lambda>e. (transformElement cols e u g)\<lparr>embedding := None\<rparr>) es) db)"

text \<open>
  A whole snapshot as the viewer page sends it (\<open>snapshotToServer\<close>): \<open>init\<close>, then
  the chunks in order.
\<close>

definition snapshotToServer ::
  "('e \<Rightarrow> row) \<Rightarrow> string \<Rightarrow> string \<Rightarrow> 'e list list \<Rightarrow> store \<Rightarrow> store" where
  "snapshotToServer cols u g chunks db =
     foldl (\<lambda>d es. ingestSnapshotChunk cols u g es d) (initSnapshot u db) chunks"

text \<open>
  \<open>extractModelToSqlite\<close> of \<open>services/extract.js\<close> clears the rows of the key
  and of the viewable (\<open>DELETE FROM elements WHERE urn = ? AND guid = ?\<close>) before it
  inserts; \<open>items\<close> is the property collection the provider returned.
\<close>

definition deleteUrnGuid :: "string \<Rightarrow> string \<Rightarrow> store \<Rightarrow> store" where
  "deleteUrnGuid u g db =
     db\<lparr>elements := filter (\<lambda>r. \<not> (urn r = u \<and> guid r = g)) (elements db)\<rparr>"

definition extractModelToSqlite ::
  "('e \<Rightarrow> row) \<Rightarrow> string \<Rightarrow> string \<Rightarrow> rat list option list \<Rightarrow> 'e list \<Rightarrow> store \<Rightarrow> store" where
  "extractModelToSqlite cols u g embs items db =
     insertMany (attachEmbeddings embs (map (\<lambda>e. transformElement cols e u g) items))
       (deleteUrnGuid u g db)"

text \<open>\<open>SELECT COUNT(*) FROM elements WHERE urn = ?\<close> (\<open>finishSnapshot\<close>).\<close>

definition countUrn :: "store \<Rightarrow> string \<Rightarrow> nat" where
  "countUrn db u = length (rowsOf db u)"

section \<open>Notions the properties are stated with\<close>

text \<open>A value of the area property with no number in it, and one whose number is zero.\<close>

definition noNumber :: "area_raw \<Rightarrow> bool" where
  "noNumber raw =
     (case raw of ANull \<Rightarrow> True | ANum x \<Rightarrow> False | AStr s \<Rightarrow> firstMatch s = None)"

definition zeroValued :: "area_raw \<Rightarrow> bool" where
  "zeroValued raw =
     (case raw of
        ANull \<Rightarrow> False
      | ANum x \<Rightarrow> x = 0
      | AStr s \<Rightarrow> (case firstMatch s of
                     None \<Rightarrow> False
                   | Some m \<Rightarrow> parseFloat (replaceComma m) = Some 0))"


section \<open>A sample partition\<close>

definition blankRow :: row where
  "blankRow =
     \<lparr>rid = 0, urn = [], guid = [], dbId = 0, name = None, component_type = None,
      type_name = None, family_name = None, level_number = None, room_name = None,
      room_type = None, system_type = None, system_name = None, manufacturer = None,
      model_name = None, omniclass_title = None, omniclass_number = None,
      props_flat = None, embedding = None\<rparr>"

definition floorRow :: "int \<Rightarrow> area_raw \<Rightarrow> row" where
  "floorRow i a =
     blankRow\<lparr>rid := i, urn := ''m1'', dbId := i, component_type := Some ''Floors'',
              props_flat := Some [(''Area'', a)]\<rparr>"

definition doorRow :: "int \<Rightarrow> string \<Rightarrow> rat list \<Rightarrow> row" where
  "doorRow i lvl v =
     blankRow\<lparr>rid := i, urn := ''m1'', dbId := i, component_type := Some ''Doors'',
              level_number := Some lvl, embedding := Some (Parsed v)\<rparr>"

definition floorRows :: "row list" where
  "floorRows =
     [floorRow 1 (AStr (''120.5 m'' @ [CHR 0xB2])), floorRow 2 (AStr ''80,25''),
      floorRow 3 ANull, floorRow 4 (AStr ''not a number'')]"

definition sampleStore :: store where
  "sampleStore =
     \<lparr>elements = floorRows @ [doorRow 5 ''L1'' [0, 0], doorRow 6 ''L2'' [0, 0]],
      nextId = 7\<rparr>"

text \<open>A \<open>json_extract\<close> that reads the key after \<open>$.\<close> off the flat mapping.\<close>

definition flatExtract :: "props option \<Rightarrow> string \<Rightarrow> area_raw" where
  "flatExtract pf path =
     (case pf of
        None \<Rightarrow> ANull
      | Some kv \<Rightarrow> (case map_of kv (drop 2 path) of None \<Rightarrow> ANull | Some a \<Rightarrow> a))"

text \<open>Collaborators that are all down, but for the row store.\<close>

definition sampleEnv :: env where
  "sampleEnv =
     \<lparr>embedClient = (\<lambda>s. Inl ServiceError),
      jsonExtract = flatExtract,
      hintLLM = (\<lambda>q cs. Inl ServiceError),
      intentLLM = (\<lambda>q cs h. Inl ServiceError),
      parameterLLM = (\<lambda>q p m. Inl ServiceError),
      valueLLM = (\<lambda>q f cs. Inl ServiceError),
      generalLLM = (\<lambda>q. Inl ServiceError),
      answerLLM = (\<lambda>q m p r. Inl ServiceError)\<rparr>"

definition samplePlan :: plan where
  "samplePlan =
     \<lparr>plan_urn = ''m1'', task = JStr ''count'', category = JNull, limit = Some 20,
      filterParam = JNull, filterValue = JNull, targetParam = JNull,
      propsFlatKey = JNull, useSemanticSearch = JBool False, semanticQuery = JNull,
      topK = Some 100, plan_notes = JStr []\<rparr>"


text \<open>
  The semantic stage of \<open>runQuery\<close> fails: it is asked for, and the embedding call
  throws, or gives no vector, or the search throws.
\<close>

definition semanticFails :: "env \<Rightarrow> store \<Rightarrow> plan \<Rightarrow> bool" where
  "semanticFails E db p =
     (truthy (useSemanticSearch p) \<and> truthy (semanticQuery p)
      \<and> (case generateEmbedding E (semanticQuery p) of
            Inl e \<Rightarrow> True
          | Inr None \<Rightarrow> True
          | Inr (Some q) \<Rightarrow>
              (case semanticSearch db (plan_urn p) q (numOr (topK p) 100) of
                 Inl e \<Rightarrow> True
               | Inr ids \<Rightarrow> False)))"

definition semanticPlan :: plan where
  "semanticPlan = samplePlan\<lparr>useSemanticSearch := JBool True, semanticQuery := JStr ''glass''\<rparr>"

text \<open>A reply of the planner that filters on the level and targets the type name.\<close>

definition levelPlan1 :: plan1 where
  "levelPlan1 =
     \<lparr>intent1 = JStr ''bim'', task1 = JStr ''count'', category1 = JStr ''Doors'',
      limit1 = None, notes1 = JNull\<rparr>"

definition levelPlan2 :: plan2 where
  "levelPlan2 =
     \<lparr>useSemanticSearch2 = JBool False, semanticQuery2 = JNull, topK2 = None,
      filterParam2 = JStr ''level_number'', filterValue2 = JStr ''L1'',
      targetParam2 = JStr ''type_name; DROP TABLE elements'', propsFlatKey2 = JNull,
      limit2 = None\<rparr>"

text \<open>
  A question about windows over the sample partition, whose categories are
  \<open>Floors\<close> and \<open>Doors\<close>: the planner names the category \<open>Windows\<close>, nothing else is
  asked for, and the hint call is down.
\<close>

definition windowsPlan1 :: plan1 where
  "windowsPlan1 =
     \<lparr>intent1 = JStr ''bim'', task1 = JStr ''count'', category1 = JStr ''Windows'',
      limit1 = None, notes1 = JNull\<rparr>"

definition emptyPlan2 :: plan2 where
  "emptyPlan2 =
     \<lparr>useSemanticSearch2 = JNull, semanticQuery2 = JNull, topK2 = None,
      filterParam2 = JNull, filterValue2 = JNull, targetParam2 = JNull,
      propsFlatKey2 = JNull, limit2 = None\<rparr>"

definition windowsEnv :: env where
  "windowsEnv =
     sampleEnv\<lparr>intentLLM := (\<lambda>q cs h. Inr windowsPlan1),
               parameterLLM := (\<lambda>q p m. Inr emptyPlan2),
               answerLLM := (\<lambda>q m p r. Inr ''ok'')\<rparr>"








section \<open>Properties of the area sum\<close>








lemma step_zero: "zeroValued raw \<Longrightarrow> sumAreaStep acc raw = acc"
  by (auto simp: zeroValued_def sumAreaStep_def falsyRaw_def areaNum_def
           split: area_raw.splits option.splits)

lemma step_none: "noNumber raw \<Longrightarrow> sumAreaStep acc raw = acc"
  by (auto simp: noNumber_def sumAreaStep_def falsyRaw_def areaNum_def
           split: area_raw.splits option.splits)

text \<open>
  C10.  In the area sum, a row whose value is zero (the number 0, or a text whose first
  decimal number is 0) is treated like a row with no number in it: the loop body
  leaves the total and the count as they were, so the sum over the rows is the sum
  over the rows without it.
\<close>

theorem zero_area_row_skipped:
  assumes "zeroValued raw" and "noNumber none"
  shows "sumAreaStep acc raw = acc \<and> sumAreaStep acc raw = sumAreaStep acc none
         \<and> sumAreaLoop (xs @ raw # ys) = sumAreaLoop (xs @ ys)"
  using assms by (simp add: step_zero step_none sumAreaLoop_def)

lemma zeroValued_sample: "zeroValued (AStr ''0,00 m2'') \<and> zeroValued (ANum 0)"
  by code_simp

lemma noNumber_sample: "noNumber (AStr ''not a number'')"
  by code_simp

theorem zero_area_row_skipped_witness:
  "zeroValued (AStr ''0,00 m2'') \<and> noNumber (AStr ''not a number'')
   \<and> sumAreaStep (5, 1) (AStr ''0,00 m2'') = (5, 1)
   \<and> sumAreaLoop ([ANum 5] @ AStr ''0,00 m2'' # [ANum 2]) = sumAreaLoop ([ANum 5] @ [ANum 2])"
  using zero_area_row_skipped[of "AStr ''0,00 m2''" "AStr ''not a number''" "(5, 1)" "[ANum 5]" "[ANum 2]"]
        zeroValued_sample noNumber_sample
  by simp

section \<open>Properties of semantic retrieval\<close>


























section \<open>Properties of the query engine\<close>

lemma candidateIds_fails: "semanticFails E db p \<Longrightarrow> candidateIds E db p = None"
  by (auto simp: semanticFails_def candidateIds_def split: sum.splits option.splits)

lemma candidateIds_disabled: "candidateIds E db (p\<lparr>useSemanticSearch := JBool False\<rparr>) = None"
  by (simp add: candidateIds_def)

lemma whereClauses_flag:
  "whereClauses m (p\<lparr>useSemanticSearch := x\<rparr>) cids = whereClauses m p cids"
  by (simp add: whereClauses_def normCategory_def hasFilter_def)

lemma runTask_flag: "runTask E db (p\<lparr>useSemanticSearch := x\<rparr>) cs = runTask E db p cs"
  by (simp add: runTask_def limitOf_def
           cong: sum.case_cong option.case_cong prod.case_cong if_cong)

lemma whereClauses_no_ids: "IdIn ids \<notin> set (whereClauses m p None)"
  by (auto simp: whereClauses_def split: option.splits)

text \<open>
  C7.  When the semantic stage fails during \<open>runQuery\<close> (the embedding call throws or
  gives no vector, or the search throws), no candidate identifiers are kept, the
  \<open>WHERE\<close> clause has no \<open>id IN (...)\<close> conjunct, and \<open>runQuery\<close> returns what it
  returns for the same plan with semantic retrieval switched off.
\<close>

theorem semantic_failure_degrades:
  assumes "semanticFails E db p"
  shows "candidateIds E db p = None
         \<and> (\<forall>ids. IdIn ids \<notin> set (whereClauses m p (candidateIds E db p)))
         \<and> runQuery E db m p = runQuery E db m (p\<lparr>useSemanticSearch := JBool False\<rparr>)"
  using candidateIds_fails[OF assms]
  by (simp add: runQuery_def candidateIds_disabled whereClauses_flag runTask_flag
        whereClauses_no_ids)

lemma semanticPlan_fails: "semanticFails sampleEnv sampleStore semanticPlan"
  by code_simp

lemma semanticPlan_result:
  "runQuery sampleEnv sampleStore (getMeta sampleStore ''m1'') semanticPlan = Inr (Count 6)"
  by code_simp

theorem semantic_failure_degrades_witness:
  "semanticFails sampleEnv sampleStore semanticPlan
   \<and> runQuery sampleEnv sampleStore (getMeta sampleStore ''m1'') semanticPlan = Inr (Count 6)
   \<and> runQuery sampleEnv sampleStore (getMeta sampleStore ''m1'')
        (semanticPlan\<lparr>useSemanticSearch := JBool False\<rparr>) = Inr (Count 6)"
  using semantic_failure_degrades[OF semanticPlan_fails, of "getMeta sampleStore ''m1''"]
        semanticPlan_fails semanticPlan_result
  by simp

section \<open>Properties of the chat route\<close>

lemma allowedHas_text: "allowedHas v \<Longrightarrow> truthy v \<and> toStr v \<in> set allowedParams"
  by (auto simp: allowedHas_def allowedParams_def)

lemma orElse_null: "orElse v JNull = JNull \<or> truthy (orElse v JNull)"
  by (simp add: orElse_def)

lemma sanitize_filterParam:
  "filterParam (sanitize p)
     = (if truthy (filterParam p) \<and> \<not> allowedHas (filterParam p) then JNull else filterParam p)"
  by (auto simp: sanitize_def Let_def)

lemma sanitize_targetParam:
  "targetParam (sanitize p)
     = (if truthy (targetParam p) \<and> \<not> allowedHas (targetParam p) then JNull else targetParam p)"
  by (auto simp: sanitize_def Let_def)

lemma valueStep_fields:
  "filterParam (fst (valueStep E db q p)) = filterParam p
   \<and> targetParam (fst (valueStep E db q p)) = targetParam p
   \<and> category (fst (valueStep E db q p)) = category p
   \<and> plan_urn (fst (valueStep E db q p)) = plan_urn p"
  by (simp add: valueStep_def Let_def split: sum.splits)

lemma finalPlan_filterParam:
  "filterParam (finalPlan E db u q p1 c p2)
     = (if allowedHas (filterParam2 p2) then filterParam2 p2 else JNull)"
  using allowedHas_text[of "filterParam2 p2"]
  by (simp add: finalPlan_def valueStep_fields sanitize_filterParam mergePlan_def orElse_def)

lemma finalPlan_targetParam:
  "targetParam (finalPlan E db u q p1 c p2)
     = (if allowedHas (targetParam2 p2) then targetParam2 p2 else JNull)"
  using allowedHas_text[of "targetParam2 p2"]
  by (simp add: finalPlan_def valueStep_fields sanitize_targetParam mergePlan_def orElse_def)

lemma whereClauses_names:
  assumes "FieldEq f v \<in> set (whereClauses m p cids)"
  shows "f = categoryField m \<or> (truthy (filterParam p) \<and> f = toStr (filterParam p))"
  using assms
  by (auto simp: whereClauses_def hasFilter_def split: option.splits if_splits)

text \<open>
  C2.  In the plan that reaches the queries, \<open>filterParam\<close> and \<open>targetParam\<close> are
  the planner's when they are among the ten allowed names and \<open>null\<close> otherwise.  So
  every name compared in the \<open>WHERE\<close> clause is one of the ten or the category field
  \<open>component_type\<close> (next to the fixed \<open>urn = ?\<close> and \<open>id IN (...)\<close>), and so are the
  name the value prompt enumerates and the name selected and grouped by.
\<close>

theorem attribute_names_allow_listed:
  fixes E db u q p1 c p2
  defines "p \<equiv> finalPlan E db u q p1 c p2"
  shows "filterParam p = (if allowedHas (filterParam2 p2) then filterParam2 p2 else JNull)
       \<and> targetParam p = (if allowedHas (targetParam2 p2) then targetParam2 p2 else JNull)
       \<and> (\<forall>f v. FieldEq f v \<in> set (whereClauses (getMeta db u) p cids)
              \<longrightarrow> f \<in> set allowedParams \<or> f = ''component_type'')
       \<and> (truthy (filterParam p) \<longrightarrow> toStr (filterParam p) \<in> set allowedParams)
       \<and> (truthy (targetParam p) \<longrightarrow> toStr (targetParam p) \<in> set allowedParams)"
proof -
  have fp: "filterParam p = (if allowedHas (filterParam2 p2) then filterParam2 p2 else JNull)"
    unfolding p_def by (rule finalPlan_filterParam)
  have tp: "targetParam p = (if allowedHas (targetParam2 p2) then targetParam2 p2 else JNull)"
    unfolding p_def by (rule finalPlan_targetParam)
  have f_ok: "truthy (filterParam p) \<longrightarrow> toStr (filterParam p) \<in> set allowedParams"
    using fp allowedHas_text[of "filterParam2 p2"] by (simp split: if_splits)
  have t_ok: "truthy (targetParam p) \<longrightarrow> toStr (targetParam p) \<in> set allowedParams"
    using tp allowedHas_text[of "targetParam2 p2"] by (simp split: if_splits)
  have w: "\<forall>f v. FieldEq f v \<in> set (whereClauses (getMeta db u) p cids)
              \<longrightarrow> f \<in> set allowedParams \<or> f = ''component_type''"
  proof (intro allI impI)
    fix f v
    assume "FieldEq f v \<in> set (whereClauses (getMeta db u) p cids)"
    from whereClauses_names[OF this] f_ok
    show "f \<in> set allowedParams \<or> f = ''component_type''"
      by (auto simp: getMeta_def)
  qed
  from fp tp w f_ok t_ok show ?thesis by blast
qed

lemma levelPlan_final:
  "finalPlan sampleEnv sampleStore ''m1'' ''q'' levelPlan1 (JStr ''Doors'') levelPlan2
     = samplePlan\<lparr>category := JStr ''Doors'', filterParam := JStr ''level_number'',
                  filterValue := JStr ''L1''\<rparr>"
  by code_simp

theorem attribute_names_allow_listed_witness:
  "FieldEq ''level_number'' (JStr ''L1'')
     \<in> set (whereClauses (getMeta sampleStore ''m1'')
                (finalPlan sampleEnv sampleStore ''m1'' ''q'' levelPlan1 (JStr ''Doors'') levelPlan2)
                None)
   \<and> ''level_number'' \<in> set allowedParams
   \<and> truthy (filterParam (finalPlan sampleEnv sampleStore ''m1'' ''q'' levelPlan1 (JStr ''Doors'') levelPlan2))
   \<and> targetParam (finalPlan sampleEnv sampleStore ''m1'' ''q'' levelPlan1 (JStr ''Doors'') levelPlan2)
       = JNull"
proof -
  have m: "FieldEq ''level_number'' (JStr ''L1'')
             \<in> set (whereClauses (getMeta sampleStore ''m1'')
                  (samplePlan\<lparr>category := JStr ''Doors'', filterParam := JStr ''level_number'',
                              filterValue := JStr ''L1''\<rparr>) None)"
    by code_simp
  have a: "allowedHas (filterParam2 levelPlan2) \<and> \<not> allowedHas (targetParam2 levelPlan2)
           \<and> truthy (filterParam2 levelPlan2) \<and> ''level_number'' \<in> set allowedParams"
    by code_simp
  show ?thesis
    using attribute_names_allow_listed[of sampleEnv sampleStore "''m1''" "''q''" levelPlan1
            "JStr ''Doors''" levelPlan2 None] m a
    by (simp add: levelPlan_final)
qed

text \<open>
  The hint is checked against the catalog before it is used: when the planner gave no
  category, the category of the plan is \<open>null\<close> or one of the catalog's.
\<close>

lemma hint_category_in_catalog:
  assumes "\<not> truthy (category1 p1)"
  shows "chooseCategory p1 hint m = JNull
         \<or> (\<exists>c\<in>set (categories m). chooseCategory p1 hint m = JStr c)"
  using assms by (auto simp: chooseCategory_def Let_def)

text \<open>
  C1, on the code.  The category the planner names is only trimmed; it is not
  compared with the catalog.  Over a partition whose categories are \<open>Floors\<close> and
  \<open>Doors\<close>, the planner's \<open>Windows\<close> becomes the category of the plan and is compared
  with \<open>component_type\<close> in the \<open>WHERE\<close> clause of the count.
\<close>

theorem planner_category_not_checked:
  "categories (getMeta sampleStore ''m1'') = [''Floors'', ''Doors'']
   \<and> chooseCategory windowsPlan1 (detectHintCategory windowsEnv ''How many windows?''
                                    (categories (getMeta sampleStore ''m1'')))
        (getMeta sampleStore ''m1'') = JStr ''Windows''
   \<and> whereClauses (getMeta sampleStore ''m1'') (samplePlan\<lparr>category := JStr ''Windows''\<rparr>) None
       = [UrnEq ''m1'', FieldEq ''component_type'' (JStr ''Windows'')]
   \<and> postChat windowsEnv sampleStore ''m1'' ''How many windows?''
       = Inr (BimAnswer ''ok'' (samplePlan\<lparr>category := JStr ''Windows''\<rparr>) (Count 0))"
  by code_simp















section \<open>Properties of the ingest\<close>

lemma rowsOf_insertRow:
  "rowsOf (insertRow db r) u = rowsOf db u @ (if urn r = u then [r\<lparr>rid := nextId db\<rparr>] else [])"
  by (simp add: rowsOf_def insertRow_def)

text \<open>What an insert leaves of a row, but for its \<open>id\<close>: here the viewable and the category.\<close>

lemma kinds_insertMany:
  "map (\<lambda>r. (guid r, component_type r)) (rowsOf (insertMany rs db) u)
     = map (\<lambda>r. (guid r, component_type r)) (rowsOf db u)
       @ map (\<lambda>r. (guid r, component_type r)) (filter (\<lambda>r. urn r = u) rs)"
proof (induction rs arbitrary: db)
  case Nil
  then show ?case by (simp add: insertMany_def)
next
  case (Cons r rs)
  have "insertMany (r # rs) db = insertMany rs (insertRow db r)"
    by (simp add: insertMany_def)
  with Cons[of "insertRow db r"] show ?case
    by (simp add: rowsOf_insertRow)
qed

lemma rowsOf_deleteUrn: "rowsOf (deleteUrn u db) u = []"
  by (simp add: rowsOf_def deleteUrn_def)

lemma rowsOf_deleteUrnGuid:
  "rowsOf (deleteUrnGuid u g db) u = filter (\<lambda>r. guid r \<noteq> g) (rowsOf db u)"
  by (simp add: rowsOf_def deleteUrnGuid_def conj_commute cong: conj_cong)

lemma attachEmbeddings_kinds:
  "map (\<lambda>r. (guid r, component_type r)) (attachEmbeddings embs rs)
     = map (\<lambda>r. (guid r, component_type r)) rs"
  by (induction embs rs rule: attachEmbeddings.induct) simp_all

lemma attachEmbeddings_urn: "map urn (attachEmbeddings embs rs) = map urn rs"
  by (induction embs rs rule: attachEmbeddings.induct) simp_all

lemma filter_all_urn: "\<forall>x\<in>set (map urn rs). x = u \<Longrightarrow> filter (\<lambda>r. urn r = u) rs = rs"
  by (induction rs) simp_all

lemma kinds_transformed:
  "map (\<lambda>r. (guid r, component_type r))
       (filter (\<lambda>r. urn r = u)
          (attachEmbeddings embs (map (\<lambda>e. transformElement cols e u g) es)))
     = map (\<lambda>e. (g, component_type (cols e))) es"
proof -
  let ?rs = "attachEmbeddings embs (map (\<lambda>e. transformElement cols e u g) es)"
  have "\<forall>x\<in>set (map urn ?rs). x = u"
    by (simp add: attachEmbeddings_urn transformElement_def)
  then have "filter (\<lambda>r. urn r = u) ?rs = ?rs"
    by (rule filter_all_urn)
  then show ?thesis
    by (simp add: attachEmbeddings_kinds transformElement_def comp_def)
qed

lemma kinds_migrate:
  "map (\<lambda>r. (guid r, component_type r)) (rowsOf (migrate cols u g embs rawData db) u)
     = map (\<lambda>e. (g, component_type (cols e))) rawData"
  by (simp add: migrate_def kinds_insertMany rowsOf_deleteUrn kinds_transformed)

lemma kinds_chunk:
  "map (\<lambda>r. (guid r, component_type r)) (rowsOf (ingestSnapshotChunk cols u g es db) u)
     = map (\<lambda>r. (guid r, component_type r)) (rowsOf db u)
       @ map (\<lambda>e. (g, component_type (cols e))) es"
proof -
  let ?rs = "map (\<lambda>e. (transformElement cols e u g)\<lparr>embedding := None\<rparr>) es"
  have "\<forall>x\<in>set (map urn ?rs). x = u"
    by (simp add: transformElement_def)
  then have "filter (\<lambda>r. urn r = u) ?rs = ?rs"
    by (rule filter_all_urn)
  then show ?thesis
    by (simp add: ingestSnapshotChunk_def kinds_insertMany transformElement_def comp_def)
qed

lemma kinds_chunks:
  "map (\<lambda>r. (guid r, component_type r))
       (rowsOf (foldl (\<lambda>d es. ingestSnapshotChunk cols u g es d) db chunks) u)
     = map (\<lambda>r. (guid r, component_type r)) (rowsOf db u)
       @ map (\<lambda>e. (g, component_type (cols e))) (concat chunks)"
  by (induction chunks arbitrary: db) (simp_all add: kinds_chunk)

lemma kinds_snapshot:
  "map (\<lambda>r. (guid r, component_type r)) (rowsOf (snapshotToServer cols u g chunks db) u)
     = map (\<lambda>e. (g, component_type (cols e))) (concat chunks)"
  by (simp add: snapshotToServer_def initSnapshot_def kinds_chunks rowsOf_deleteUrn)

lemma kinds_extract:
  "map (\<lambda>r. (guid r, component_type r)) (rowsOf (extractModelToSqlite cols u g embs items db) u)
     = filter (\<lambda>k. fst k \<noteq> g) (map (\<lambda>r. (guid r, component_type r)) (rowsOf db u))
       @ map (\<lambda>e. (g, component_type (cols e))) items"
  by (simp add: extractModelToSqlite_def kinds_insertMany rowsOf_deleteUrnGuid kinds_transformed
        filter_map comp_def)

lemma kinds_extract_twice:
  "map (\<lambda>r. (guid r, component_type r))
       (rowsOf (extractModelToSqlite cols u g embs' items
                  (extractModelToSqlite cols u g embs items db)) u)
     = map (\<lambda>r. (guid r, component_type r)) (rowsOf (extractModelToSqlite cols u g embs items db) u)"
  by (simp add: kinds_extract filter_map comp_def)

lemma map_filter_by_map:
  "map c xs = map c ys \<Longrightarrow> List.map_filter c xs = List.map_filter c ys"
proof (induction xs arbitrary: ys)
  case Nil
  then show ?case by simp
next
  case (Cons x xs)
  then obtain y ys' where ys: "ys = y # ys'" by (cases ys) auto
  with Cons.prems have "c x = c y" and "map c xs = map c ys'" by simp_all
  with Cons.IH[of ys'] ys show ?case
    by (simp add: List.map_filter_simps split: option.splits)
qed

lemma same_kinds:
  assumes "map (\<lambda>r. (guid r, component_type r)) (rowsOf db u)
             = map (\<lambda>r. (guid r, component_type r)) (rowsOf db' u)"
  shows "countUrn db u = countUrn db' u \<and> categories (getMeta db u) = categories (getMeta db' u)"
proof -
  from assms have "map snd (map (\<lambda>r. (guid r, component_type r)) (rowsOf db u))
                     = map snd (map (\<lambda>r. (guid r, component_type r)) (rowsOf db' u))"
    by simp
  then have t: "map component_type (rowsOf db u) = map component_type (rowsOf db' u)"
    by (simp add: comp_def)
  from assms have "length (map (\<lambda>r. (guid r, component_type r)) (rowsOf db u))
                     = length (map (\<lambda>r. (guid r, component_type r)) (rowsOf db' u))"
    by simp
  then have "countUrn db u = countUrn db' u"
    by (simp add: countUrn_def)
  with map_filter_by_map[OF t] show ?thesis
    by (simp add: getMeta_def selectDistinct_def)
qed

lemma count_by_kinds:
  "countUrn db u = length (map (\<lambda>r. (guid r, component_type r)) (rowsOf db u))"
  by (simp add: countUrn_def)

text \<open>
  C9.  Running the ingest for a partition key twice on the same input leaves the
  partition as one run does, in its number of rows and in the categories of its
  catalog: each run deletes before it inserts.  This holds for the migration script
  and for a snapshot sent in chunks by the viewer page, which delete the rows of the
  key and leave one row for each input element, and for the extraction from the
  provider, which deletes the rows of the key and the viewable; and it holds whatever
  the embedding service returns in either run.
\<close>

theorem ingest_idempotent:
  "countUrn (migrate cols u g embs' rawData (migrate cols u g embs rawData db)) u
     = countUrn (migrate cols u g embs rawData db) u
   \<and> countUrn (migrate cols u g embs rawData db) u = length rawData
   \<and> categories (getMeta (migrate cols u g embs' rawData (migrate cols u g embs rawData db)) u)
       = categories (getMeta (migrate cols u g embs rawData db) u)
   \<and> countUrn (snapshotToServer cols u g chunks (snapshotToServer cols u g chunks db)) u
       = countUrn (snapshotToServer cols u g chunks db) u
   \<and> countUrn (snapshotToServer cols u g chunks db) u = length (concat chunks)
   \<and> categories (getMeta (snapshotToServer cols u g chunks (snapshotToServer cols u g chunks db)) u)
       = categories (getMeta (snapshotToServer cols u g chunks db) u)
   \<and> countUrn (extractModelToSqlite cols u g embs' rawData
                  (extractModelToSqlite cols u g embs rawData db)) u
       = countUrn (extractModelToSqlite cols u g embs rawData db) u
   \<and> categories (getMeta (extractModelToSqlite cols u g embs' rawData
                             (extractModelToSqlite cols u g embs rawData db)) u)
       = categories (getMeta (extractModelToSqlite cols u g embs rawData db) u)"
proof -
  have m: "map (\<lambda>r. (guid r, component_type r))
             (rowsOf (migrate cols u g embs' rawData (migrate cols u g embs rawData db)) u)
           = map (\<lambda>r. (guid r, component_type r)) (rowsOf (migrate cols u g embs rawData db) u)"
    by (simp add: kinds_migrate)
  have s: "map (\<lambda>r. (guid r, component_type r))
             (rowsOf (snapshotToServer cols u g chunks (snapshotToServer cols u g chunks db)) u)
           = map (\<lambda>r. (guid r, component_type r)) (rowsOf (snapshotToServer cols u g chunks db) u)"
    by (simp add: kinds_snapshot)
  have c1: "countUrn (migrate cols u g embs rawData db) u = length rawData"
    by (simp add: count_by_kinds kinds_migrate del: length_map) simp
  have c2: "countUrn (snapshotToServer cols u g chunks db) u = length (concat chunks)"
    by (simp add: count_by_kinds kinds_snapshot del: length_map) simp
  show ?thesis
    using same_kinds[OF m] same_kinds[OF s]
          same_kinds[OF kinds_extract_twice[of cols u g embs' rawData embs db]] c1 c2
    by simp
qed

end
